theory Spec2Isabelle
  imports Complex_Main "HOL-Library.Sublist"
begin

section \<open>Conventions of the embedding\<close>

text \<open>
  The Python sources \<^verbatim>\<open>backend/beauty_rules.py\<close> and \<^verbatim>\<open>backend/image_processor.py\<close>
  are embedded function by function. Python's floats are modelled as exact reals: every
  threshold, product and quotient below is the mathematical one, and IEEE rounding is not
  part of the model. Python's unbounded integers are \<^typ>\<open>int\<close>; \<^verbatim>\<open>//\<close> on them is
  \<^const>\<open>divide\<close> on \<^typ>\<open>int\<close> (both round towards minus infinity).

  A dictionary with a fixed set of possible keys is a record of optional fields; a missing
  key is \<^const>\<open>None\<close>, and \<^verbatim>\<open>d.get(k, default)\<close> is \<open>dict_get\<close>.
\<close>

definition dict_get :: "'a option \<Rightarrow> 'a \<Rightarrow> 'a" where
  "dict_get v d = (case v of None \<Rightarrow> d | Some x \<Rightarrow> x)"

text \<open>\<^verbatim>\<open>int(x)\<close> on a float truncates towards zero.\<close>

definition py_int :: "real \<Rightarrow> int" where
  "py_int x = (if 0 \<le> x then \<lfloor>x\<rfloor> else \<lceil>x\<rceil>)"

text \<open>\<^verbatim>\<open>a in b\<close> on two strings: \<open>a\<close> occurs in \<open>b\<close> as a contiguous block.\<close>

definition str_in :: "string \<Rightarrow> string \<Rightarrow> bool" where
  "str_in a b = sublist a b"

section \<open>Data model\<close>

text \<open>
  An operation is the dictionary built by the planner: keys \<^verbatim>\<open>region\<close>, \<^verbatim>\<open>type\<close>,
  \<^verbatim>\<open>priority\<close> and the numeric parameters of its type. Consumers read \<^verbatim>\<open>region\<close> and
  \<^verbatim>\<open>type\<close> with the default \<^verbatim>\<open>""\<close>, so a missing tag and the empty tag coincide and the
  two fields are plain strings.
\<close>

record operation =
  region :: string
  op_type :: string
  amount :: "real option"
  factor :: "real option"
  mm :: "real option"
  current :: "real option"
  target :: "real option"
  priority :: "int option"

text \<open>
  The measurement record consumed by the planner and the scorer. \<^verbatim>\<open>facial_thirds\<close> is a
  nested dictionary, kept as an association list (looked up with \<^const>\<open>map_of\<close>).
\<close>

record measurements =
  symmetry_score :: "real option"
  nose_to_ipd_ratio :: "real option"
  jaw_asymmetry :: "real option"
  chin_projection :: "real option"
  facial_thirds :: "(string \<times> real) list option"

section \<open>The rule table \<^verbatim>\<open>BEAUTY_RULES\<close>\<close>

definition target_symmetry :: real where "target_symmetry = 0.9"
definition max_symmetry_delta :: real where "max_symmetry_delta = 0.15"
definition max_reduction :: real where "max_reduction = 0.30"
definition ideal_nose_to_ipd :: real where "ideal_nose_to_ipd = 0.75"
definition tip_refinement :: real where "tip_refinement = 0.15"
definition bridge_refinement :: real where "bridge_refinement = 0.10"
definition max_asymmetry_correction :: real where "max_asymmetry_correction = 2.0"
definition ideal_upper :: real where "ideal_upper = 0.33"
definition ideal_middle :: real where "ideal_middle = 0.33"
definition ideal_lower :: real where "ideal_lower = 0.34"
definition tolerance :: real where "tolerance = 0.05"

section \<open>The planner: \<^verbatim>\<open>BeautyRulesEngine.plan_changes\<close>\<close>

text \<open>A dictionary literal with the three tags and no parameter yet.\<close>

definition new_op :: "string \<Rightarrow> string \<Rightarrow> int \<Rightarrow> operation" where
  "new_op r t p =
     \<lparr>region = r, op_type = t, amount = None, factor = None, mm = None,
      current = None, target = None, priority = Some p\<rparr>"

text \<open>
  \<^verbatim>\<open>plan_changes\<close> appends to one list in five numbered blocks and sorts it at the end.
  Each block is given its own definition, in the order of the source; the operations a block
  appends depend on the measurements alone, not on the list built so far.
\<close>

text \<open>Block 1, symmetry correction.\<close>

definition symmetry_ops :: "measurements \<Rightarrow> operation list" where
  "symmetry_ops m =
     (let current_symmetry = dict_get (symmetry_score m) 1.0 in
      if current_symmetry < target_symmetry then
        (let delta = min (target_symmetry - current_symmetry) max_symmetry_delta in
         [(new_op ''face'' ''symmetry'' 1)\<lparr>amount := Some delta\<rparr>])
      else [])"

text \<open>Block 2, nose width correction, with its three regimes.\<close>

definition nose_ops :: "measurements \<Rightarrow> operation list" where
  "nose_ops m =
     (let nose_ratio = dict_get (nose_to_ipd_ratio m) 1.0;
          ideal_nose_ratio = ideal_nose_to_ipd in
      if nose_ratio > ideal_nose_ratio then
        (let excess = nose_ratio / ideal_nose_ratio - 1.0;
             shrink_factor = min excess max_reduction in
         [(new_op ''nose'' ''shrink_width'' 2)\<lparr>factor := Some (1 - shrink_factor)\<rparr>]
         @ (if shrink_factor > 0.15
            then [(new_op ''nose'' ''refine_tip'' 2)\<lparr>factor := Some (1 - tip_refinement)\<rparr>]
            else [])
         @ (if shrink_factor > 0.12
            then [(new_op ''nose'' ''refine_bridge'' 2)\<lparr>factor := Some (1 - bridge_refinement)\<rparr>]
            else []))
      else if nose_ratio < ideal_nose_ratio * 0.85 then
        [(new_op ''nose'' ''refine_tip'' 2)\<lparr>factor := Some (1 - tip_refinement * 0.5)\<rparr>,
         (new_op ''nose'' ''refine_bridge'' 2)\<lparr>factor := Some (1 - bridge_refinement * 0.5)\<rparr>]
      else
        [(new_op ''nose'' ''refine_tip'' 2)\<lparr>factor := Some (1 - tip_refinement * 0.7)\<rparr>])"

text \<open>Block 3, jaw asymmetry correction.\<close>

definition jaw_ops :: "measurements \<Rightarrow> operation list" where
  "jaw_ops m =
     (let jaw_asym = dict_get (jaw_asymmetry m) 0;
          max_correction = max_asymmetry_correction in
      if jaw_asym > 1.0 then
        (let correction = min jaw_asym max_correction in
         [(new_op ''jaw'' ''balance'' 3)\<lparr>mm := Some correction\<rparr>])
      else [])"

text \<open>Block 4, chin projection adjustment.\<close>

definition chin_ops :: "measurements \<Rightarrow> operation list" where
  "chin_ops m =
     (let chin_proj = dict_get (chin_projection m) 0 in
      if chin_proj > 0 then
        (if chin_proj < 20 then [(new_op ''chin'' ''enhance'' 4)\<lparr>amount := Some 0.15\<rparr>] else [])
      else [])"

text \<open>
  \<^verbatim>\<open>_analyze_facial_thirds\<close>: the loop over the three named thirds. One iteration appends
  at most one operation.
\<close>

definition third_op :: "(string \<times> real) list \<Rightarrow> string \<times> real \<Rightarrow> operation list" where
  "third_op ft = (\<lambda>(third_name, ideal).
     (let cur = dict_get (map_of ft third_name) ideal;
          deviation = \<bar>cur - ideal\<bar> in
      if deviation > tolerance then
        [(new_op ''face'' (''adjust_'' @ third_name @ ''_third'') 5)
           \<lparr>current := Some cur, target := Some ideal\<rparr>]
      else []))"

definition analyze_facial_thirds :: "(string \<times> real) list \<Rightarrow> operation list" where
  "analyze_facial_thirds ft =
     concat (map (third_op ft)
       [(''upper'', ideal_upper), (''middle'', ideal_middle), (''lower'', ideal_lower)])"

text \<open>Block 5, facial thirds; an empty dictionary is falsy and skips the analysis.\<close>

definition thirds_ops :: "measurements \<Rightarrow> operation list" where
  "thirds_ops m =
     (let ft = dict_get (facial_thirds m) [] in
      if ft \<noteq> [] then analyze_facial_thirds ft else [])"

text \<open>The list as it stands before the final sort, in emission order.\<close>

definition emitted :: "measurements \<Rightarrow> operation list" where
  "emitted m = symmetry_ops m @ nose_ops m @ jaw_ops m @ chin_ops m @ thirds_ops m"

text \<open>
  \<^verbatim>\<open>operations.sort(key=lambda x: x.get("priority", 99))\<close>. Python's sort is stable;
  \<^const>\<open>sort_key\<close> is the stable insertion sort, so both give the one stable ordering.
\<close>

definition sort_priority :: "operation \<Rightarrow> int" where
  "sort_priority x = dict_get (priority x) 99"

definition plan_changes :: "measurements \<Rightarrow> operation list" where
  "plan_changes m = sort_key sort_priority (emitted m)"

section \<open>The scorer: \<^verbatim>\<open>BeautyRulesEngine.calculate_harmony_score\<close>\<close>

definition operations_score :: "nat \<Rightarrow> real" where
  "operations_score num_operations =
     (if num_operations = 0 then 1.0
      else if num_operations = 1 then 0.85
      else if num_operations = 2 then 0.70
      else max 0.5 (1.0 - (real num_operations - 2) * 0.1))"

text \<open>The list \<^verbatim>\<open>scores\<close> of (sub-score, weight) pairs, in the order they are appended.\<close>

definition scores :: "measurements \<Rightarrow> operation list \<Rightarrow> (real \<times> real) list" where
  "scores m ops =
     (let symmetry = dict_get (symmetry_score m) 0.8;
          ideal_nose_ratio = ideal_nose_to_ipd;
          nose_ratio = dict_get (nose_to_ipd_ratio m) ideal_nose_ratio;
          nose_deviation = \<bar>nose_ratio - ideal_nose_ratio\<bar> / ideal_nose_ratio;
          nose_score = max 0 (1 - nose_deviation * 2);
          jaw_asym = dict_get (jaw_asymmetry m) 0;
          max_asymmetry = 10.0;
          jaw_score = max 0 (1 - jaw_asym / max_asymmetry);
          chin_proj = dict_get (chin_projection m) 0;
          chin_score = (if chin_proj > 0 then min 1.0 (chin_proj / 20.0) else 0.7)
      in [(symmetry, 0.40), (nose_score, 0.20), (jaw_score, 0.15), (chin_score, 0.10),
          (operations_score (length ops), 0.15)])"

definition total_score :: "measurements \<Rightarrow> operation list \<Rightarrow> real" where
  "total_score m ops = sum_list (map (\<lambda>(score, weight). score * weight) (scores m ops))"

definition calculate_harmony_score :: "measurements \<Rightarrow> operation list \<Rightarrow> int" where
  "calculate_harmony_score m ops =
     (let harmony_score = py_int (total_score m ops * 100)
      in max 0 (min 100 harmony_score))"

section \<open>The recommendation renderer: \<^verbatim>\<open>get_readable_recommendations\<close>\<close>

text \<open>
  A recommendation is a Python f-string. It is kept as the sequence of its literal parts
  and its formatted values, tagged with the format used: \<^verbatim>\<open>{n}\<close> on an int,
  \<^verbatim>\<open>{x:.1f}\<close> and \<^verbatim>\<open>{x:.1%}\<close> on a float. The decimal expansion of a float is not
  carried out.
\<close>

datatype piece = Lit string | IntD int | Fixed1 real | Percent1 real

type_synonym fstring = "piece list"

text \<open>The arrow of the facial-thirds templates, as its three UTF-8 bytes.\<close>

definition arrow :: string where
  "arrow = '' '' @ [CHR 0xE2, CHR 0x86, CHR 0x92] @ '' ''"

text \<open>\<^verbatim>\<open>sep.join(xs)\<close>.\<close>

fun join :: "fstring \<Rightarrow> fstring list \<Rightarrow> fstring" where
  "join sep [] = []"
| "join sep [x] = x"
| "join sep (x # y # ys) = x @ sep @ join sep (y # ys)"

text \<open>
  The body of the loop over the operations. The state is the pair of the two lists the
  loop appends to, \<^verbatim>\<open>recommendations\<close> and \<^verbatim>\<open>nose_ops\<close>; an operation that matches no
  branch leaves both as they are.
\<close>

definition describe_third :: "operation \<Rightarrow> fstring" where
  "describe_third op =
     (let t = op_type op;
          cur = dict_get (current op) 0;
          tgt = dict_get (target op) 0;
          deviation = tgt - cur;
          change_pct = \<bar>deviation\<bar> * 100 in
      if str_in ''upper'' t then
        (if \<bar>deviation\<bar> \<le> 0.02 then
           [Lit ''Upper Third Optimization: Minimal Botox brow lift effect ('',
            Percent1 cur, Lit arrow, Percent1 tgt, Lit '', ~'', Fixed1 change_pct,
            Lit ''% change) - very subtle, Botox can only lift brows 1-3mm maximum'']
         else
           [Lit ''Upper Third Optimization: Requires surgical brow lift or forehead reduction ('',
            Percent1 cur, Lit arrow, Percent1 tgt,
            Lit '') - beyond Botox capability, would need surgery''])
      else if str_in ''middle'' t then
        [Lit ''Middle Third Enhancement: Cheek/midface augmentation with dermal fillers ('',
         Percent1 cur, Lit arrow, Percent1 tgt, Lit '', ~'', Fixed1 change_pct,
         Lit ''% change) - adds volume and forward projection to midface (NOT achievable with Botox alone)'']
      else
        [Lit ''Lower Third Optimization: Combined jaw and chin contouring ('',
         Percent1 cur, Lit arrow, Percent1 tgt,
         Lit '') - complements existing chin enhancement procedures''])"

definition describe_step ::
  "fstring list \<times> fstring list \<Rightarrow> operation \<Rightarrow> fstring list \<times> fstring list" where
  "describe_step = (\<lambda>(recommendations, nose_descs) op.
     (let r = region op; t = op_type op in
      if r = ''face'' \<and> t = ''symmetry'' then
        (let a = dict_get (amount op) 0;
             percentage = (if a > 0 then py_int (a * 100) else 0) in
         (recommendations @
            [[Lit ''Facial Symmetry Correction: Balance left/right facial features ('',
              IntD percentage,
              Lit ''% AI-enhanced symmetry adjustment) - improves overall facial harmony'']],
          nose_descs))
      else if r = ''nose'' then
        (if t = ''shrink_width'' then
           (let f = dict_get (factor op) 1.0;
                reduction = py_int ((1 - f) * 100) in
            (recommendations,
             nose_descs @ [[IntD reduction, Lit ''% overall nasal width reduction'']]))
         else if t = ''refine_tip'' then
           (recommendations, nose_descs @ [[Lit ''nasal tip refinement and definition'']])
         else if t = ''refine_bridge'' then
           (recommendations, nose_descs @ [[Lit ''nasal bridge narrowing'']])
         else (recommendations, nose_descs))
      else if r = ''jaw'' \<and> t = ''balance'' then
        (let v = dict_get (mm op) 0 in
         (recommendations @
            [[Lit ''Jawline Contouring: Correct jaw asymmetry ('', Fixed1 v,
              Lit ''mm lateral adjustment) - improves facial symmetry and balance'']],
          nose_descs))
      else if r = ''chin'' \<and> t = ''enhance'' then
        (let a = dict_get (amount op) 0;
             percentage = py_int (a * 100) in
         (recommendations @
            [[Lit ''Chin Enhancement: Increase chin projection ('', IntD percentage,
              Lit ''% forward projection) - improves profile definition'']],
          nose_descs))
      else if r = ''face'' \<and> str_in ''third'' t then
        (recommendations @ [describe_third op], nose_descs)
      else (recommendations, nose_descs)))"

definition describe_loop :: "operation list \<Rightarrow> fstring list \<times> fstring list" where
  "describe_loop ops = foldl describe_step ([], []) ops"

text \<open>The sentence that merges the collected nose descriptions.\<close>

definition rhinoplasty :: "fstring list \<Rightarrow> fstring" where
  "rhinoplasty nose_descs =
     [Lit ''Comprehensive Rhinoplasty: ''] @ join [Lit '', ''] nose_descs @
     [Lit '' - creates more refined, elegant nasal proportions for enhanced facial harmony'']"

definition already_balanced :: "fstring list" where
  "already_balanced =
     [[Lit ''Your facial features are already well-balanced!''],
      [Lit ''No enhancements recommended - your facial harmony is optimal'']]"

definition get_readable_recommendations :: "operation list \<Rightarrow> fstring list" where
  "get_readable_recommendations ops =
     (case describe_loop ops of (recommendations, nose_descs) \<Rightarrow>
        (let recs = (if nose_descs \<noteq> [] then rhinoplasty nose_descs # recommendations
                     else recommendations)
         in if recs = [] then already_balanced else recs))"

section \<open>The warp engine: \<^verbatim>\<open>ImageProcessor\<close>\<close>

text \<open>
  The raster itself is not modelled pixel by pixel. An image buffer is its shape
  (\<^verbatim>\<open>image.shape[:2]\<close>) together with the sequence of warp-and-blend steps that OpenCV
  has carried out on the raster since it was loaded. A renderer that executes
  \<^verbatim>\<open>return image\<close> returns the buffer it was given; a renderer that reaches its final
  \<^verbatim>\<open>return result.astype(np.uint8)\<close> returns a buffer with one more step, described by
  the geometry the code has computed for it (source and destination points, mask, size of
  the Gaussian kernel, blend strength). Equal buffers of the model are equal pixel by
  pixel; buffers that differ in the model went through different OpenCV calls.
\<close>

type_synonym point = "real \<times> real"

datatype mask =
    Ellipse "int \<times> int" "int \<times> int"
  | FillPoly "(int \<times> int) list"
  | Rectangle "int \<times> int" "int \<times> int"

datatype composite =
    WarpPerspective "point list" "point list" mask nat
  | WarpAffineShift int mask nat real
  | MirrorBlend int int real mask nat

record image =
  height :: nat
  width :: nat
  composites :: "composite list"

definition blend :: "image \<Rightarrow> composite \<Rightarrow> image" where
  "blend img c = img\<lparr>composites := composites img @ [c]\<rparr>"

text \<open>A point of an \<^verbatim>\<open>np.float32\<close> array given by two ints.\<close>

definition pt :: "int \<Rightarrow> int \<Rightarrow> point" where
  "pt x y = (real_of_int x, real_of_int y)"

text \<open>\<^verbatim>\<open>_shrink_nose_width\<close>\<close>

definition shrink_nose_width :: "image \<Rightarrow> operation \<Rightarrow> image" where
  "shrink_nose_width img operation =
     (let fac = dict_get (factor operation) 0.9 in
      if fac \<ge> 1.0 \<or> fac < 0.70 then img
      else
        (let h = int (height img); w = int (width img);
             nose_center_x = w div 2;
             nose_center_y = py_int (real_of_int h * 0.35);
             nose_width = py_int (real_of_int w * 0.16);
             nose_height = py_int (real_of_int h * 0.20);
             bridge_width = nose_width;
             tip_width = py_int (real_of_int nose_width * 0.80);
             src_points =
               [pt (nose_center_x - bridge_width div 2) (nose_center_y - nose_height div 2),
                pt (nose_center_x + bridge_width div 2) (nose_center_y - nose_height div 2),
                pt (nose_center_x + tip_width div 2) (nose_center_y + nose_height div 2),
                pt (nose_center_x - tip_width div 2) (nose_center_y + nose_height div 2)];
             reduction_multiplier = 1.0 - (1.0 - fac) * 1.2;
             new_bridge_width = py_int (real_of_int bridge_width * reduction_multiplier);
             new_tip_width = py_int (real_of_int tip_width * reduction_multiplier);
             width_diff = bridge_width - new_bridge_width
         in if width_diff < 2 then img
            else
              (let dst_points =
                     [pt (nose_center_x - new_bridge_width div 2) (nose_center_y - nose_height div 2),
                      pt (nose_center_x + new_bridge_width div 2) (nose_center_y - nose_height div 2),
                      pt (nose_center_x + new_tip_width div 2) (nose_center_y + nose_height div 2),
                      pt (nose_center_x - new_tip_width div 2) (nose_center_y + nose_height div 2)];
                   avg_width = (new_bridge_width + new_tip_width) div 2;
                   msk = Ellipse (nose_center_x, nose_center_y)
                           (avg_width div 2 + 10, nose_height div 2 + 12)
               in blend img (WarpPerspective src_points dst_points msk 19))))"

text \<open>\<^verbatim>\<open>_refine_nose_tip\<close>\<close>

definition refine_nose_tip :: "image \<Rightarrow> operation \<Rightarrow> image" where
  "refine_nose_tip img operation =
     (let fac = dict_get (factor operation) 0.85 in
      if fac \<ge> 1.0 \<or> fac < 0.80 then img
      else
        (let h = int (height img); w = int (width img);
             nose_center_x = w div 2;
             nose_tip_y = py_int (real_of_int h * 0.45);
             tip_width = py_int (real_of_int w * 0.08);
             tip_height = py_int (real_of_int h * 0.10);
             src_points =
               [pt (nose_center_x - tip_width div 2) (nose_tip_y - tip_height div 2),
                pt (nose_center_x + tip_width div 2) (nose_tip_y - tip_height div 2),
                pt (nose_center_x + tip_width div 2) (nose_tip_y + tip_height div 2),
                pt (nose_center_x - tip_width div 2) (nose_tip_y + tip_height div 2)];
             new_tip_width = py_int (real_of_int tip_width * fac)
         in if new_tip_width \<ge> tip_width then img
            else
              (let dst_points =
                     [pt (nose_center_x - new_tip_width div 2) (nose_tip_y - tip_height div 2),
                      pt (nose_center_x + new_tip_width div 2) (nose_tip_y - tip_height div 2),
                      pt (nose_center_x + new_tip_width div 2) (nose_tip_y + tip_height div 2),
                      pt (nose_center_x - new_tip_width div 2) (nose_tip_y + tip_height div 2)];
                   msk = Ellipse (nose_center_x, nose_tip_y)
                           (new_tip_width div 2 + 5, tip_height div 2 + 5)
               in blend img (WarpPerspective src_points dst_points msk 13))))"

text \<open>\<^verbatim>\<open>_refine_nose_bridge\<close>\<close>

definition refine_nose_bridge :: "image \<Rightarrow> operation \<Rightarrow> image" where
  "refine_nose_bridge img operation =
     (let fac = dict_get (factor operation) 0.90 in
      if fac \<ge> 1.0 \<or> fac < 0.85 then img
      else
        (let h = int (height img); w = int (width img);
             nose_center_x = w div 2;
             bridge_y = py_int (real_of_int h * 0.28);
             bridge_width = py_int (real_of_int w * 0.10);
             bridge_height = py_int (real_of_int h * 0.12);
             src_points =
               [pt (nose_center_x - bridge_width div 2) (bridge_y - bridge_height div 2),
                pt (nose_center_x + bridge_width div 2) (bridge_y - bridge_height div 2),
                pt (nose_center_x + bridge_width div 2) (bridge_y + bridge_height div 2),
                pt (nose_center_x - bridge_width div 2) (bridge_y + bridge_height div 2)];
             new_bridge_width = py_int (real_of_int bridge_width * fac)
         in if new_bridge_width \<ge> bridge_width then img
            else
              (let dst_points =
                     [pt (nose_center_x - new_bridge_width div 2) (bridge_y - bridge_height div 2),
                      pt (nose_center_x + new_bridge_width div 2) (bridge_y - bridge_height div 2),
                      pt (nose_center_x + new_bridge_width div 2) (bridge_y + bridge_height div 2),
                      pt (nose_center_x - new_bridge_width div 2) (bridge_y + bridge_height div 2)];
                   msk = Ellipse (nose_center_x, bridge_y)
                           (new_bridge_width div 2 + 4, bridge_height div 2 + 4)
               in blend img (WarpPerspective src_points dst_points msk 11))))"

text \<open>\<^verbatim>\<open>_balance_jaw\<close>; the sign of the pixel correction selects the side of the face.\<close>

definition balance_jaw :: "image \<Rightarrow> operation \<Rightarrow> image" where
  "balance_jaw img operation =
     (let mm_correction = dict_get (mm operation) 0 in
      if mm_correction = 0 \<or> mm_correction > 2.0 then img
      else
        (let h = int (height img); w = int (width img);
             face_width_estimate = real_of_int w * 0.6;
             pixel_correction = py_int (mm_correction * face_width_estimate / 100)
         in if \<bar>pixel_correction\<bar> < 2 then img
            else
              (let jaw_y = py_int (real_of_int h * 0.7);
                   jaw_height = py_int (real_of_int h * 0.2);
                   jaw_center_x = w div 2;
                   jaw_side_width = py_int (real_of_int w * 0.2);
                   jaw_left = (if pixel_correction > 0 then jaw_center_x
                               else max 0 (jaw_center_x - jaw_side_width));
                   jaw_right = (if pixel_correction > 0 then min (jaw_center_x + jaw_side_width) w
                                else jaw_center_x);
                   src_points =
                     [pt jaw_left jaw_y, pt jaw_right jaw_y,
                      pt jaw_right (jaw_y + jaw_height), pt jaw_left (jaw_y + jaw_height)];
                   shift = real_of_int \<bar>pixel_correction\<bar> * 0.7;
                   l = real_of_int jaw_left; r = real_of_int jaw_right;
                   top = real_of_int jaw_y; bottom = real_of_int (jaw_y + jaw_height);
                   dst_points =
                     (if pixel_correction > 0
                      then [(l + shift, top), (r - shift, top), (r - shift, bottom), (l + shift, bottom)]
                      else [(l - shift, top), (r + shift, top), (r + shift, bottom), (l - shift, bottom)]);
                   msk = FillPoly
                           [(jaw_left, jaw_y), (jaw_right, jaw_y),
                            (jaw_right, jaw_y + jaw_height), (jaw_left, jaw_y + jaw_height)]
               in blend img (WarpPerspective src_points dst_points msk 21))))"

text \<open>\<^verbatim>\<open>_improve_symmetry\<close>\<close>

definition improve_symmetry :: "image \<Rightarrow> operation \<Rightarrow> image" where
  "improve_symmetry img operation =
     (let a = dict_get (amount operation) 0 in
      if a = 0 \<or> a > 0.15 then img
      else
        (let h = int (height img); w = int (width img);
             face_center_x = w div 2;
             face_center_y = h div 2;
             face_region_width = py_int (real_of_int w * 0.6);
             face_region_height = py_int (real_of_int h * 0.7);
             msk = Ellipse (face_center_x, face_center_y)
                     (face_region_width div 2, face_region_height div 2);
             inner_left = py_int (real_of_int face_center_x - real_of_int face_region_width * 0.25);
             inner_right = py_int (real_of_int face_center_x + real_of_int face_region_width * 0.25)
         in if inner_left > 0 \<and> inner_right < w then
              (let blend_strength = min (a * 0.4) 0.2
               in blend img (MirrorBlend inner_left inner_right blend_strength msk 25))
            else img))"

text \<open>\<^verbatim>\<open>_enhance_chin\<close>\<close>

definition enhance_chin :: "image \<Rightarrow> operation \<Rightarrow> image" where
  "enhance_chin img operation =
     (let a = dict_get (amount operation) 0 in
      if a = 0 \<or> a > 0.2 then img
      else
        (let h = int (height img); w = int (width img);
             chin_start_y = py_int (real_of_int h * 0.75);
             chin_height = py_int (real_of_int h * 0.15);
             chin_center_x = w div 2;
             chin_width = py_int (real_of_int w * 0.4);
             src_points =
               [pt (chin_center_x - chin_width div 2) chin_start_y,
                pt (chin_center_x + chin_width div 2) chin_start_y,
                pt (chin_center_x + chin_width div 2) (chin_start_y + chin_height),
                pt (chin_center_x - chin_width div 2) (chin_start_y + chin_height)];
             stretch_y = py_int (real_of_int chin_height * a * 0.5)
         in if stretch_y < 1 then img
            else
              (let dst_ints =
                     [(chin_center_x - chin_width div 2, chin_start_y),
                      (chin_center_x + chin_width div 2, chin_start_y),
                      (chin_center_x + chin_width div 2, chin_start_y + chin_height + stretch_y),
                      (chin_center_x - chin_width div 2, chin_start_y + chin_height + stretch_y)];
                   dst_points = map (\<lambda>(x, y). pt x y) dst_ints;
                   msk = FillPoly dst_ints
               in blend img (WarpPerspective src_points dst_points msk 15))))"

text \<open>\<^verbatim>\<open>_adjust_upper_third\<close>\<close>

definition adjust_upper_third :: "image \<Rightarrow> real \<Rightarrow> image" where
  "adjust_upper_third img deviation =
     (let h = int (height img); w = int (width img);
          max_botox_effect = 0.02 in
      if \<bar>deviation\<bar> > max_botox_effect then img
      else if \<bar>deviation\<bar> < 0.01 then img
      else
        (let brow_lift_y = py_int (real_of_int h * 0.25);
             lift_amount = py_int (\<bar>deviation\<bar> * real_of_int h * 0.3)
         in if lift_amount < 1 then img
            else
              (let brow_region_height = py_int (real_of_int h * 0.08);
                   msk = Rectangle (0, brow_lift_y - brow_region_height div 2)
                           (w, brow_lift_y + brow_region_height div 2)
               in blend img (WarpAffineShift (- lift_amount) msk 15 0.4))))"

text \<open>\<^verbatim>\<open>_adjust_middle_third\<close>\<close>

definition adjust_middle_third :: "image \<Rightarrow> real \<Rightarrow> image" where
  "adjust_middle_third img deviation =
     (let h = int (height img); w = int (width img);
          middle_start = py_int (real_of_int h * 0.33);
          middle_end = py_int (real_of_int h * 0.66) in
      if \<bar>deviation\<bar> < 0.02 then img
      else
        (let center_x = w div 2;
             cheek_width = py_int (real_of_int w * 0.35);
             cheek_center_y = (middle_start + middle_end) div 2
         in if deviation > 0 then
              (let src_points =
                     [pt (center_x - cheek_width div 2) middle_start,
                      pt (center_x + cheek_width div 2) middle_start,
                      pt (center_x + cheek_width div 2) middle_end,
                      pt (center_x - cheek_width div 2) middle_end];
                   projection = py_int (\<bar>deviation\<bar> * real_of_int w * 0.15);
                   dst_points =
                     [pt (center_x - cheek_width div 2 - projection div 3) middle_start,
                      pt (center_x + cheek_width div 2 + projection div 3) middle_start,
                      pt (center_x + cheek_width div 2 + projection div 4) middle_end,
                      pt (center_x - cheek_width div 2 - projection div 4) middle_end];
                   msk = Ellipse (center_x, cheek_center_y)
                           (cheek_width div 2 + 10, (middle_end - middle_start) div 2 + 5)
               in blend img (WarpPerspective src_points dst_points msk 23))
            else img))"

text \<open>\<^verbatim>\<open>_adjust_lower_third\<close>\<close>

definition adjust_lower_third :: "image \<Rightarrow> real \<Rightarrow> image" where
  "adjust_lower_third img deviation =
     (let h = int (height img); w = int (width img);
          lower_start = py_int (real_of_int h * 0.66);
          lower_end = h;
          lower_height = lower_end - lower_start in
      if \<bar>deviation\<bar> < 0.02 then img
      else
        (let stretch_factor = 1.0 + (deviation * 0.6);
             new_height = py_int (real_of_int lower_height * stretch_factor)
         in if \<bar>new_height - lower_height\<bar> < 3 then img
            else
              (let src_points =
                     [pt 0 lower_start, pt w lower_start, pt w lower_end, pt 0 lower_end];
                   new_end = min (lower_start + new_height) h;
                   dst_ints = [(0, lower_start), (w, lower_start), (w, new_end), (0, new_end)];
                   dst_points = map (\<lambda>(x, y). pt x y) dst_ints;
                   msk = FillPoly dst_ints
               in blend img (WarpPerspective src_points dst_points msk 23))))"

text \<open>\<^verbatim>\<open>_adjust_facial_third\<close>\<close>

definition adjust_facial_third :: "image \<Rightarrow> operation \<Rightarrow> image" where
  "adjust_facial_third img operation =
     (let t = op_type operation;
          cur = dict_get (current operation) 0;
          tgt = dict_get (target operation) 0;
          deviation = tgt - cur in
      if \<bar>deviation\<bar> < 0.01 then img
      else if str_in ''upper'' t then adjust_upper_third img deviation
      else if str_in ''middle'' t then adjust_middle_third img deviation
      else if str_in ''lower'' t then adjust_lower_third img deviation
      else img)"

text \<open>\<^verbatim>\<open>_apply_single_operation\<close>: the dispatch on the two tags.\<close>

definition apply_single_operation :: "image \<Rightarrow> operation \<Rightarrow> image" where
  "apply_single_operation img operation =
     (let r = region operation; t = op_type operation in
      if r = ''nose'' \<and> t = ''shrink_width'' then shrink_nose_width img operation
      else if r = ''nose'' \<and> t = ''refine_tip'' then refine_nose_tip img operation
      else if r = ''nose'' \<and> t = ''refine_bridge'' then refine_nose_bridge img operation
      else if r = ''jaw'' \<and> t = ''balance'' then balance_jaw img operation
      else if r = ''face'' \<and> t = ''symmetry'' then improve_symmetry img operation
      else if r = ''chin'' \<and> t = ''enhance'' then enhance_chin img operation
      else if r = ''face'' \<and> str_in ''third'' t then adjust_facial_third img operation
      else img)"

text \<open>
  \<^verbatim>\<open>_save_processed_image\<close> and \<^verbatim>\<open>apply_operations\<close>. The files on disk are a map from
  paths to buffers: \<^verbatim>\<open>cv2.imread\<close> looks the path up and yields \<^verbatim>\<open>None\<close> where nothing can
  be loaded, \<^verbatim>\<open>cv2.imwrite\<close> stores the buffer. \<^verbatim>\<open>Path(p).stem\<close> belongs to the standard
  library and is a parameter. The function returns the optional output path and the files
  as they are afterwards.
\<close>

definition save_processed_image ::
  "(string \<Rightarrow> string) \<Rightarrow> (string \<rightharpoonup> image) \<Rightarrow> image \<Rightarrow> string \<Rightarrow> string \<times> (string \<rightharpoonup> image)" where
  "save_processed_image stem files img original_path =
     (let original_name = stem original_path;
          output_filename = ''after_'' @ original_name @ ''.jpg'';
          output_path = ''uploads/'' @ output_filename
      in (output_path, files(output_path \<mapsto> img)))"

definition apply_operations ::
  "(string \<Rightarrow> string) \<Rightarrow> (string \<rightharpoonup> image) \<Rightarrow> string \<Rightarrow> operation list
     \<Rightarrow> string option \<times> (string \<rightharpoonup> image)" where
  "apply_operations stem files image_path operations =
     (if operations = [] then (None, files)
      else
        (case files image_path of
           None \<Rightarrow> (None, files)
         | Some img \<Rightarrow>
             (let processed_image = foldl apply_single_operation img operations;
                  (output_path, files') = save_processed_image stem files processed_image image_path
              in (Some output_path, files'))))"

section \<open>Vocabulary of the properties\<close>

text \<open>A nose operation as the planner writes it: one \<^verbatim>\<open>factor\<close>, priority 2.\<close>

definition nose_operation :: "string \<Rightarrow> real \<Rightarrow> operation" where
  "nose_operation t f =
     \<lparr>region = ''nose'', op_type = t, amount = None, factor = Some f, mm = None,
      current = None, target = None, priority = Some 2\<rparr>"



text \<open>
  The score as the specification words it, on the five inputs themselves: the weighted sum
  of the five sub-scores, times 100, rounded, clamped to 0..100.
\<close>

definition spec_harmony_score :: "real \<Rightarrow> real \<Rightarrow> real \<Rightarrow> real \<Rightarrow> nat \<Rightarrow> int" where
  "spec_harmony_score symm ratio jaw chin n =
     max 0 (min 100 (round (100 *
       (0.40 * symm
        + 0.20 * max 0 (1 - 2 * \<bar>ratio - 0.75\<bar> / 0.75)
        + 0.15 * max 0 (1 - jaw / 10)
        + 0.10 * (if chin > 0 then min 1 (chin / 20) else 0.7)
        + 0.15 * (if n = 0 then 1.0 else if n = 1 then 0.85 else if n = 2 then 0.70
                  else max 0.5 (1.0 - (real n - 2) * 0.1))))))"

text \<open>Concrete records: the empty dictionary, and scenarios A and C of the specification.\<close>

definition no_measurements :: measurements where
  "no_measurements =
     \<lparr>symmetry_score = None, nose_to_ipd_ratio = None, jaw_asymmetry = None,
      chin_projection = None, facial_thirds = None\<rparr>"

definition scenario_A :: measurements where
  "scenario_A =
     \<lparr>symmetry_score = Some 0.95, nose_to_ipd_ratio = Some 0.75, jaw_asymmetry = Some 0,
      chin_projection = Some 0,
      facial_thirds = Some [(''upper'', 0.33), (''middle'', 0.33), (''lower'', 0.34)]\<rparr>"


text \<open>A raster as \<^verbatim>\<open>cv2.imread\<close> delivers it: a shape and no warp applied yet.\<close>

definition loaded :: "nat \<Rightarrow> nat \<Rightarrow> image" where
  "loaded h w = \<lparr>height = h, width = w, composites = []\<rparr>"

text \<open>A jaw operation with the given \<^verbatim>\<open>mm\<close>, and an upper-third operation as the planner
  writes it for the given current share.\<close>

definition jaw_operation :: "real \<Rightarrow> operation" where
  "jaw_operation v =
     \<lparr>region = ''jaw'', op_type = ''balance'', amount = None, factor = None, mm = Some v,
      current = None, target = None, priority = Some 3\<rparr>"

definition upper_third_operation :: "real \<Rightarrow> operation" where
  "upper_third_operation cur =
     \<lparr>region = ''face'', op_type = ''adjust_upper_third'', amount = None, factor = None,
      mm = None, current = Some cur, target = Some 0.33, priority = Some 5\<rparr>"

text \<open>A record with a long forehead and a pronounced jaw asymmetry, and nothing else.\<close>

definition long_forehead :: measurements where
  "long_forehead =
     \<lparr>symmetry_score = Some 0.70, nose_to_ipd_ratio = Some 1.0, jaw_asymmetry = Some 3,
      chin_projection = Some 10,
      facial_thirds = Some [(''upper'', 0.45), (''middle'', 0.25), (''lower'', 0.30)]\<rparr>"

text \<open>
  What one operation adds when the loop body runs on it alone: its own sentences, and its
  own parts of the merged nose sentence.
\<close>

definition own_sentences :: "operation \<Rightarrow> fstring list" where
  "own_sentences op = fst (describe_step ([], []) op)"

definition own_nose_parts :: "operation \<Rightarrow> fstring list" where
  "own_nose_parts op = snd (describe_step ([], []) op)"

text \<open>The six recommendations for the eight operations planned for the long forehead.\<close>

definition long_forehead_disclosure :: "fstring list" where
  "long_forehead_disclosure =
     [[Lit ''Comprehensive Rhinoplasty: '', IntD 30,
       Lit ''% overall nasal width reduction'', Lit '', '',
       Lit ''nasal tip refinement and definition'', Lit '', '',
       Lit ''nasal bridge narrowing'',
       Lit '' - creates more refined, elegant nasal proportions for enhanced facial harmony''],
      [Lit ''Facial Symmetry Correction: Balance left/right facial features ('', IntD 15,
       Lit ''% AI-enhanced symmetry adjustment) - improves overall facial harmony''],
      [Lit ''Jawline Contouring: Correct jaw asymmetry ('', Fixed1 2,
       Lit ''mm lateral adjustment) - improves facial symmetry and balance''],
      [Lit ''Chin Enhancement: Increase chin projection ('', IntD 15,
       Lit ''% forward projection) - improves profile definition''],
      [Lit ''Upper Third Optimization: Requires surgical brow lift or forehead reduction ('',
       Percent1 0.45, Lit arrow, Percent1 0.33,
       Lit '') - beyond Botox capability, would need surgery''],
      [Lit ''Middle Third Enhancement: Cheek/midface augmentation with dermal fillers ('',
       Percent1 0.25, Lit arrow, Percent1 0.33, Lit '', ~'', Fixed1 8,
       Lit ''% change) - adds volume and forward projection to midface (NOT achievable with Botox alone)'']]"

section \<open>Facts about the planner\<close>

lemmas rules_defs =
  target_symmetry_def max_symmetry_delta_def max_reduction_def ideal_nose_to_ipd_def
  tip_refinement_def bridge_refinement_def max_asymmetry_correction_def
  ideal_upper_def ideal_middle_def ideal_lower_def tolerance_def

lemmas tier_defs =
  symmetry_ops_def nose_ops_def jaw_ops_def chin_ops_def thirds_ops_def
  analyze_facial_thirds_def third_op_def

subsection \<open>Priorities: the emission order is already sorted\<close>

lemma prio_symmetry: "map sort_priority (symmetry_ops m) = replicate (length (symmetry_ops m)) 1"
  by (simp add: symmetry_ops_def Let_def new_op_def sort_priority_def dict_get_def)

lemma prio_nose: "map sort_priority (nose_ops m) = replicate (length (nose_ops m)) 2"
  by (simp add: nose_ops_def Let_def new_op_def sort_priority_def dict_get_def)

lemma prio_jaw: "map sort_priority (jaw_ops m) = replicate (length (jaw_ops m)) 3"
  by (simp add: jaw_ops_def Let_def new_op_def sort_priority_def dict_get_def)

lemma prio_chin: "map sort_priority (chin_ops m) = replicate (length (chin_ops m)) 4"
  by (simp add: chin_ops_def Let_def new_op_def sort_priority_def dict_get_def)

lemma prio_thirds: "map sort_priority (thirds_ops m) = replicate (length (thirds_ops m)) 5"
  by (simp add: thirds_ops_def analyze_facial_thirds_def third_op_def Let_def new_op_def
      sort_priority_def dict_get_def)

lemma sorted_emitted: "sorted (map sort_priority (emitted m))"
  by (auto simp: emitted_def prio_symmetry prio_nose prio_jaw prio_chin prio_thirds sorted_append)

lemma plan_changes_emitted: "plan_changes m = emitted m"
  by (simp add: plan_changes_def sort_key_id_if_sorted sorted_emitted)

subsection \<open>Tags of the operations of each block\<close>

lemma region_symmetry:
  "op \<in> set (symmetry_ops m) \<Longrightarrow> region op = ''face'' \<and> op_type op = ''symmetry''"
  by (auto simp: symmetry_ops_def Let_def new_op_def split: if_splits)

lemma region_nose:
  "op \<in> set (nose_ops m) \<Longrightarrow>
   region op = ''nose'' \<and> op_type op \<in> {''shrink_width'', ''refine_tip'', ''refine_bridge''}"
  by (auto simp: nose_ops_def Let_def new_op_def split: if_splits)

lemma region_jaw:
  "op \<in> set (jaw_ops m) \<Longrightarrow> region op = ''jaw'' \<and> op_type op = ''balance''"
  by (auto simp: jaw_ops_def Let_def new_op_def split: if_splits)

lemma region_chin:
  "op \<in> set (chin_ops m) \<Longrightarrow> region op = ''chin'' \<and> op_type op = ''enhance''"
  by (auto simp: chin_ops_def Let_def new_op_def split: if_splits)

lemma region_thirds:
  "op \<in> set (thirds_ops m) \<Longrightarrow>
   region op = ''face'' \<and>
   op_type op \<in> {''adjust_upper_third'', ''adjust_middle_third'', ''adjust_lower_third''}"
  by (auto simp: thirds_ops_def analyze_facial_thirds_def third_op_def Let_def new_op_def
      split: if_splits)

lemma third_not_in:
  "\<not> str_in ''third'' ''symmetry''" "\<not> str_in ''third'' ''shrink_width''"
  "\<not> str_in ''third'' ''refine_tip''" "\<not> str_in ''third'' ''refine_bridge''"
  "\<not> str_in ''third'' ''balance''" "\<not> str_in ''third'' ''enhance''"
  unfolding str_in_def by code_simp+

lemma third_in:
  "str_in ''third'' ''adjust_upper_third''" "str_in ''third'' ''adjust_middle_third''"
  "str_in ''third'' ''adjust_lower_third''"
  unfolding str_in_def by code_simp+


lemma filter_none:
  "filter (\<lambda>op. op_type op = ''symmetry'') (nose_ops m) = []"
  "filter (\<lambda>op. op_type op = ''symmetry'') (jaw_ops m) = []"
  "filter (\<lambda>op. op_type op = ''symmetry'') (chin_ops m) = []"
  "filter (\<lambda>op. op_type op = ''symmetry'') (thirds_ops m) = []"
  "filter (\<lambda>op. region op = ''jaw'') (symmetry_ops m) = []"
  "filter (\<lambda>op. region op = ''jaw'') (nose_ops m) = []"
  "filter (\<lambda>op. region op = ''jaw'') (chin_ops m) = []"
  "filter (\<lambda>op. region op = ''jaw'') (thirds_ops m) = []"
  "filter (\<lambda>op. region op = ''chin'') (symmetry_ops m) = []"
  "filter (\<lambda>op. region op = ''chin'') (nose_ops m) = []"
  "filter (\<lambda>op. region op = ''chin'') (jaw_ops m) = []"
  "filter (\<lambda>op. region op = ''chin'') (thirds_ops m) = []"
  "filter (\<lambda>op. str_in ''third'' (op_type op)) (symmetry_ops m) = []"
  "filter (\<lambda>op. str_in ''third'' (op_type op)) (nose_ops m) = []"
  "filter (\<lambda>op. str_in ''third'' (op_type op)) (jaw_ops m) = []"
  "filter (\<lambda>op. str_in ''third'' (op_type op)) (chin_ops m) = []"
  by (auto simp: filter_empty_conv third_not_in
       dest!: region_symmetry region_nose region_jaw region_chin region_thirds)

subsection \<open>A block reads its own field only\<close>

lemma other_fields_plan:
  "symmetry_ops (m\<lparr>jaw_asymmetry := j\<rparr>) = symmetry_ops m"
  "symmetry_ops (m\<lparr>chin_projection := c\<rparr>) = symmetry_ops m"
  "symmetry_ops (m\<lparr>facial_thirds := t\<rparr>) = symmetry_ops m"
  "nose_ops (m\<lparr>symmetry_score := s\<rparr>) = nose_ops m"
  "nose_ops (m\<lparr>jaw_asymmetry := j\<rparr>) = nose_ops m"
  "nose_ops (m\<lparr>chin_projection := c\<rparr>) = nose_ops m"
  "nose_ops (m\<lparr>facial_thirds := t\<rparr>) = nose_ops m"
  "jaw_ops (m\<lparr>symmetry_score := s\<rparr>) = jaw_ops m"
  "jaw_ops (m\<lparr>chin_projection := c\<rparr>) = jaw_ops m"
  "jaw_ops (m\<lparr>facial_thirds := t\<rparr>) = jaw_ops m"
  "chin_ops (m\<lparr>symmetry_score := s\<rparr>) = chin_ops m"
  "chin_ops (m\<lparr>jaw_asymmetry := j\<rparr>) = chin_ops m"
  "chin_ops (m\<lparr>facial_thirds := t\<rparr>) = chin_ops m"
  "thirds_ops (m\<lparr>symmetry_score := s\<rparr>) = thirds_ops m"
  "thirds_ops (m\<lparr>jaw_asymmetry := j\<rparr>) = thirds_ops m"
  "thirds_ops (m\<lparr>chin_projection := c\<rparr>) = thirds_ops m"
  by (simp_all add: symmetry_ops_def nose_ops_def jaw_ops_def chin_ops_def thirds_ops_def)

lemma missing_tier:
  "symmetry_ops (m\<lparr>symmetry_score := None\<rparr>) = []"
  "symmetry_ops (m\<lparr>symmetry_score := Some 1\<rparr>) = []"
  "jaw_ops (m\<lparr>jaw_asymmetry := None\<rparr>) = []"
  "jaw_ops (m\<lparr>jaw_asymmetry := Some 0\<rparr>) = []"
  "chin_ops (m\<lparr>chin_projection := None\<rparr>) = []"
  "chin_ops (m\<lparr>chin_projection := Some 0\<rparr>) = []"
  "thirds_ops (m\<lparr>facial_thirds := None\<rparr>) = []"
  "thirds_ops (m\<lparr>facial_thirds := Some []\<rparr>) = []"
  by (simp_all add: symmetry_ops_def jaw_ops_def chin_ops_def thirds_ops_def dict_get_def
      target_symmetry_def Let_def)

subsection \<open>Near-ideal fields\<close>







subsection \<open>The planner on the concrete records\<close>

lemma plan_scenario_A:
  "plan_changes scenario_A = [nose_operation ''refine_tip'' (1 - 0.15 * 0.7)]"
  by (simp add: plan_changes_def emitted_def tier_defs scenario_A_def dict_get_def rules_defs
      nose_operation_def new_op_def)

lemma plan_no_measurements:
  "plan_changes no_measurements =
     [nose_operation ''shrink_width'' 0.70, nose_operation ''refine_tip'' 0.85,
      nose_operation ''refine_bridge'' 0.90]"
  by (simp add: plan_changes_def emitted_def tier_defs no_measurements_def dict_get_def
      rules_defs nose_operation_def new_op_def sort_priority_def Let_def)

lemma plan_ideal_nose:
  "plan_changes (no_measurements\<lparr>nose_to_ipd_ratio := Some 0.75\<rparr>) =
     [nose_operation ''refine_tip'' (1 - 0.15 * 0.7)]"
  by (simp add: plan_changes_def emitted_def tier_defs no_measurements_def dict_get_def
      rules_defs nose_operation_def new_op_def sort_priority_def Let_def)

section \<open>Facts about the scorer\<close>

lemmas score_defs =
  calculate_harmony_score_def total_score_def scores_def operations_score_def

lemma py_int_mono: "x \<le> y \<Longrightarrow> py_int x \<le> py_int y"
proof -
  assume xy: "x \<le> y"
  show ?thesis
  proof (cases "0 \<le> x")
    case True
    then show ?thesis using xy by (simp add: py_int_def floor_mono)
  next
    case False
    show ?thesis
    proof (cases "0 \<le> y")
      case True
      have "\<lceil>x\<rceil> \<le> 0" using False by (simp add: ceiling_le_zero)
      moreover have "0 \<le> \<lfloor>y\<rfloor>" using True by simp
      ultimately have "\<lceil>x\<rceil> \<le> \<lfloor>y\<rfloor>" by linarith
      then show ?thesis using False True by (simp add: py_int_def)
    next
      case F2: False
      then show ?thesis using False xy by (simp add: py_int_def ceiling_mono)
    qed
  qed
qed

lemma total_score_symmetry:
  "total_score (m\<lparr>symmetry_score := Some s\<rparr>) ops =
   0.40 * s + total_score (m\<lparr>symmetry_score := Some 0\<rparr>) ops"
  by (simp add: total_score_def scores_def Let_def dict_get_def)

lemma score_no_measurements:
  "calculate_harmony_score no_measurements [] = 89"
  "calculate_harmony_score (no_measurements\<lparr>symmetry_score := Some 0.9\<rparr>) [] = 93"
  "calculate_harmony_score (no_measurements\<lparr>symmetry_score := Some 1.0\<rparr>) [] = 97"
  by (simp_all add: score_defs no_measurements_def dict_get_def rules_defs py_int_def)

lemma score_scenario_A:
  "calculate_harmony_score scenario_A [nose_operation ''refine_tip'' (1 - 0.15 * 0.7)] = 92"
  by (simp add: score_defs scenario_A_def dict_get_def rules_defs py_int_def)

section \<open>Properties of the planner\<close>

text \<open>
  Claim C7. For every measurement record the list returned by \<open>plan_changes\<close> is sorted by
  non-decreasing priority, and the sort is stable: the operations of one priority are, in
  the same order, those of that priority in the emission order. The emission order is
  symmetry, nose, jaw, chin, facial thirds, and the list returned is that very sequence of
  blocks (within the nose block the source appends shrink_width, then refine_tip, then
  refine_bridge).
\<close>

theorem plan_changes_sorted_stable:
  "sorted (map sort_priority (plan_changes m)) \<and>
   (\<forall>k. filter (\<lambda>op. sort_priority op = k) (plan_changes m)
        = filter (\<lambda>op. sort_priority op = k) (emitted m)) \<and>
   plan_changes m = symmetry_ops m @ nose_ops m @ jaw_ops m @ chin_ops m @ thirds_ops m"
proof (intro conjI allI)
  show "sorted (map sort_priority (plan_changes m))"
    unfolding plan_changes_def by (rule sorted_sort_key)
  show "filter (\<lambda>op. sort_priority op = k) (plan_changes m)
      = filter (\<lambda>op. sort_priority op = k) (emitted m)" for k
    unfolding plan_changes_def by (rule sort_key_stable)
  show "plan_changes m = symmetry_ops m @ nose_ops m @ jaw_ops m @ chin_ops m @ thirds_ops m"
    by (simp add: plan_changes_emitted emitted_def)
qed

text \<open>The same at the record without any key: three nose operations, in emission order.\<close>

theorem plan_changes_sorted_stable_witness:
  "sorted (map sort_priority (plan_changes no_measurements)) \<and>
   plan_changes no_measurements =
     [nose_operation ''shrink_width'' 0.70, nose_operation ''refine_tip'' 0.85,
      nose_operation ''refine_bridge'' 0.90]"
proof -
  have a: "sorted (map sort_priority (plan_changes no_measurements))"
    using plan_changes_sorted_stable [of no_measurements] by (rule conjunct1)
  from a plan_no_measurements show ?thesis by (rule conjI)
qed






text \<open>
  Claim C1, as stated: a missing field is treated as its ideal value by the planner and the
  scorer; in particular a record with no \<open>nose_to_ipd_ratio\<close> key triggers no nose operation
  on account of the absence, and a record with no \<open>symmetry_score\<close> key is scored as if
  symmetry were ideal. It fails at the record with no key at all. The planner reads the
  missing nose ratio as 1.0 and plans the three operations of the wide-nose regime, where
  the same record with the ratio at its ideal 0.75 gets the single near-ideal refine_tip.
  The scorer reads the missing symmetry score as 0.8 and returns 89, where the same record
  scores 93 with symmetry at the target 0.9 and 97 with symmetry 1.0.
\<close>

theorem missing_fields_not_ideal_counterexample:
  "plan_changes no_measurements =
     [nose_operation ''shrink_width'' 0.70, nose_operation ''refine_tip'' 0.85,
      nose_operation ''refine_bridge'' 0.90] \<and>
   plan_changes (no_measurements\<lparr>nose_to_ipd_ratio := Some 0.75\<rparr>) =
     [nose_operation ''refine_tip'' (1 - 0.15 * 0.7)] \<and>
   calculate_harmony_score no_measurements [] = 89 \<and>
   calculate_harmony_score (no_measurements\<lparr>symmetry_score := Some 0.9\<rparr>) [] = 93 \<and>
   calculate_harmony_score (no_measurements\<lparr>symmetry_score := Some 1.0\<rparr>) [] = 97"
  by (intro conjI plan_no_measurements plan_ideal_nose score_no_measurements)

text \<open>
  Claim C1, amended. A missing field is read with a fixed default, and the record is
  processed as the record that holds that default. In \<open>plan_changes\<close> a missing
  \<open>symmetry_score\<close> is 1.0, a missing \<open>jaw_asymmetry\<close> is 0, a missing \<open>chin_projection\<close> is 0
  and a missing \<open>facial_thirds\<close> is the empty dictionary, and the plan then holds no
  operation of that block. In \<open>calculate_harmony_score\<close> a missing \<open>nose_to_ipd_ratio\<close> is the
  ideal 0.75, a missing \<open>jaw_asymmetry\<close> is 0, a missing \<open>chin_projection\<close> is 0 and a missing
  \<open>symmetry_score\<close> is 0.8. What \<open>plan_changes\<close> does with a missing \<open>nose_to_ipd_ratio\<close> is
  not part of the amended claim.
\<close>

theorem missing_fields_read_as_defaults:
  "plan_changes (m\<lparr>symmetry_score := None\<rparr>) = plan_changes (m\<lparr>symmetry_score := Some 1.0\<rparr>)
   \<and> filter (\<lambda>op. op_type op = ''symmetry'') (plan_changes (m\<lparr>symmetry_score := None\<rparr>)) = []
   \<and> plan_changes (m\<lparr>jaw_asymmetry := None\<rparr>) = plan_changes (m\<lparr>jaw_asymmetry := Some 0\<rparr>)
   \<and> filter (\<lambda>op. region op = ''jaw'') (plan_changes (m\<lparr>jaw_asymmetry := None\<rparr>)) = []
   \<and> plan_changes (m\<lparr>chin_projection := None\<rparr>) = plan_changes (m\<lparr>chin_projection := Some 0\<rparr>)
   \<and> filter (\<lambda>op. region op = ''chin'') (plan_changes (m\<lparr>chin_projection := None\<rparr>)) = []
   \<and> plan_changes (m\<lparr>facial_thirds := None\<rparr>) = plan_changes (m\<lparr>facial_thirds := Some []\<rparr>)
   \<and> filter (\<lambda>op. str_in ''third'' (op_type op)) (plan_changes (m\<lparr>facial_thirds := None\<rparr>)) = []
   \<and> calculate_harmony_score (m\<lparr>nose_to_ipd_ratio := None\<rparr>) ops
       = calculate_harmony_score (m\<lparr>nose_to_ipd_ratio := Some 0.75\<rparr>) ops
   \<and> calculate_harmony_score (m\<lparr>jaw_asymmetry := None\<rparr>) ops
       = calculate_harmony_score (m\<lparr>jaw_asymmetry := Some 0\<rparr>) ops
   \<and> calculate_harmony_score (m\<lparr>chin_projection := None\<rparr>) ops
       = calculate_harmony_score (m\<lparr>chin_projection := Some 0\<rparr>) ops
   \<and> calculate_harmony_score (m\<lparr>symmetry_score := None\<rparr>) ops
       = calculate_harmony_score (m\<lparr>symmetry_score := Some 0.8\<rparr>) ops"
proof (intro conjI)
  show "plan_changes (m\<lparr>symmetry_score := None\<rparr>) = plan_changes (m\<lparr>symmetry_score := Some 1.0\<rparr>)"
    by (simp add: plan_changes_emitted emitted_def other_fields_plan missing_tier)
  show "filter (\<lambda>op. op_type op = ''symmetry'') (plan_changes (m\<lparr>symmetry_score := None\<rparr>)) = []"
    by (simp add: plan_changes_emitted emitted_def missing_tier filter_none)
  show "plan_changes (m\<lparr>jaw_asymmetry := None\<rparr>) = plan_changes (m\<lparr>jaw_asymmetry := Some 0\<rparr>)"
    by (simp add: plan_changes_emitted emitted_def other_fields_plan missing_tier)
  show "filter (\<lambda>op. region op = ''jaw'') (plan_changes (m\<lparr>jaw_asymmetry := None\<rparr>)) = []"
    by (simp add: plan_changes_emitted emitted_def missing_tier filter_none)
  show "plan_changes (m\<lparr>chin_projection := None\<rparr>) = plan_changes (m\<lparr>chin_projection := Some 0\<rparr>)"
    by (simp add: plan_changes_emitted emitted_def other_fields_plan missing_tier)
  show "filter (\<lambda>op. region op = ''chin'') (plan_changes (m\<lparr>chin_projection := None\<rparr>)) = []"
    by (simp add: plan_changes_emitted emitted_def missing_tier filter_none)
  show "plan_changes (m\<lparr>facial_thirds := None\<rparr>) = plan_changes (m\<lparr>facial_thirds := Some []\<rparr>)"
    by (simp add: plan_changes_emitted emitted_def other_fields_plan missing_tier)
  show "filter (\<lambda>op. str_in ''third'' (op_type op)) (plan_changes (m\<lparr>facial_thirds := None\<rparr>)) = []"
    by (simp add: plan_changes_emitted emitted_def missing_tier filter_none)
  show "calculate_harmony_score (m\<lparr>nose_to_ipd_ratio := None\<rparr>) ops
       = calculate_harmony_score (m\<lparr>nose_to_ipd_ratio := Some 0.75\<rparr>) ops"
    by (simp add: calculate_harmony_score_def total_score_def scores_def dict_get_def
        ideal_nose_to_ipd_def)
  show "calculate_harmony_score (m\<lparr>jaw_asymmetry := None\<rparr>) ops
       = calculate_harmony_score (m\<lparr>jaw_asymmetry := Some 0\<rparr>) ops"
    by (simp add: calculate_harmony_score_def total_score_def scores_def dict_get_def)
  show "calculate_harmony_score (m\<lparr>chin_projection := None\<rparr>) ops
       = calculate_harmony_score (m\<lparr>chin_projection := Some 0\<rparr>) ops"
    by (simp add: calculate_harmony_score_def total_score_def scores_def dict_get_def)
  show "calculate_harmony_score (m\<lparr>symmetry_score := None\<rparr>) ops
       = calculate_harmony_score (m\<lparr>symmetry_score := Some 0.8\<rparr>) ops"
    by (simp add: calculate_harmony_score_def total_score_def scores_def dict_get_def)
qed

text \<open>At scenario A with its symmetry key removed: still the one refine_tip, and score 86.\<close>

theorem missing_fields_read_as_defaults_witness:
  "plan_changes (scenario_A\<lparr>symmetry_score := None\<rparr>)
     = [nose_operation ''refine_tip'' (1 - 0.15 * 0.7)] \<and>
   calculate_harmony_score (scenario_A\<lparr>symmetry_score := None\<rparr>)
     [nose_operation ''refine_tip'' (1 - 0.15 * 0.7)] = 86"
proof -
  have p: "plan_changes (scenario_A\<lparr>symmetry_score := Some 1.0\<rparr>)
      = [nose_operation ''refine_tip'' (1 - 0.15 * 0.7)]"
    by (simp add: plan_changes_def emitted_def tier_defs scenario_A_def dict_get_def rules_defs
        nose_operation_def new_op_def)
  have q: "calculate_harmony_score (scenario_A\<lparr>symmetry_score := Some 0.8\<rparr>)
      [nose_operation ''refine_tip'' (1 - 0.15 * 0.7)] = 86"
    by (simp add: score_defs scenario_A_def dict_get_def rules_defs py_int_def)
  show ?thesis
    using missing_fields_read_as_defaults
      [of scenario_A "[nose_operation ''refine_tip'' (1 - 0.15 * 0.7)]"] p q
    by simp
qed

section \<open>Properties of the scorer\<close>

text \<open>
  With every field present the score is the weighted sum of the five sub-scores, times 100,
  cut to an integer by \<^verbatim>\<open>int\<close> and clamped to 0..100.
\<close>

lemma harmony_score_formula:
  assumes "symmetry_score m = Some s" "nose_to_ipd_ratio m = Some r"
    "jaw_asymmetry m = Some j" "chin_projection m = Some c"
  shows "calculate_harmony_score m ops =
     max 0 (min 100 (py_int (100 *
       (0.40 * s
        + 0.20 * max 0 (1 - 2 * \<bar>r - 0.75\<bar> / 0.75)
        + 0.15 * max 0 (1 - j / 10)
        + 0.10 * (if c > 0 then min 1 (c / 20) else 0.7)
        + 0.15 * (if length ops = 0 then 1.0 else if length ops = 1 then 0.85
                  else if length ops = 2 then 0.70
                  else max 0.5 (1.0 - (real (length ops) - 2) * 0.1))))))"
proof -
  define ns where "ns = max 0 (1 - 2 * \<bar>r - 0.75\<bar> / 0.75)"
  define js where "js = max 0 (1 - j / 10)"
  define cs where "cs = (if c > 0 then min 1 (c / 20) else 0.7)"
  define os where "os = (if length ops = 0 then 1.0 else if length ops = 1 then 0.85
                  else if length ops = 2 then 0.70
                  else max 0.5 (1.0 - (real (length ops) - 2) * 0.1))"
  have n: "max 0 (1 - \<bar>r - ideal_nose_to_ipd\<bar> / ideal_nose_to_ipd * 2) = ns"
    by (simp add: ns_def ideal_nose_to_ipd_def)
  have j: "max 0 (1 - j / 10.0) = js"
    by (simp add: js_def)
  have c: "(if c > 0 then min 1.0 (c / 20.0) else 0.7) = cs"
    by (simp add: cs_def)
  have o: "operations_score (length ops) = os"
    by (simp add: os_def operations_score_def)
  have sc: "scores m ops = [(s, 0.40), (ns, 0.20), (js, 0.15), (cs, 0.10), (os, 0.15)]"
    unfolding scores_def Let_def assms dict_get_def option.case n j c o ..
  have tot: "total_score m ops * 100 = 100 * (0.40 * s + 0.20 * ns + 0.15 * js + 0.10 * cs + 0.15 * os)"
    by (simp add: total_score_def sc)
  have "calculate_harmony_score m ops = max 0 (min 100 (py_int (total_score m ops * 100)))"
    by (simp add: calculate_harmony_score_def Let_def)
  also have "\<dots> = max 0 (min 100 (py_int (100 * (0.40 * s + 0.20 * ns + 0.15 * js + 0.10 * cs + 0.15 * os))))"
    by (simp only: tot)
  finally show ?thesis unfolding ns_def js_def cs_def os_def .
qed

lemma harmony_score_range:
  "0 \<le> calculate_harmony_score m ops \<and> calculate_harmony_score m ops \<le> 100"
  by (simp add: calculate_harmony_score_def Let_def)

text \<open>
  Claim C4: the score is \<open>round (100 * weighted sum)\<close> clamped to 0..100. The source announces
  it (\<^verbatim>\<open># Convert to 0-100 scale and round\<close>) and then takes \<^verbatim>\<open>int(total_score * 100)\<close>,
  which truncates. At scenario A with its planned list of one operation the weighted sum is
  0.9275: the code returns 92, the rounded value of the claim is 93.
\<close>

theorem harmony_score_truncates_at_scenario_A:
  "calculate_harmony_score scenario_A (plan_changes scenario_A) = 92 \<and>
   spec_harmony_score 0.95 0.75 0 0 (length (plan_changes scenario_A)) = 93"
proof
  show "calculate_harmony_score scenario_A (plan_changes scenario_A) = 92"
    using score_scenario_A by (simp add: plan_scenario_A)
  show "spec_harmony_score 0.95 0.75 0 0 (length (plan_changes scenario_A)) = 93"
    by (simp add: plan_scenario_A spec_harmony_score_def round_def)
qed

text \<open>
  Claim C5, as stated: with everything else fixed, the score is strictly smaller on the record
  with the smaller \<open>symmetry_score\<close>. It fails at scenario A with one operation: symmetry 0.90
  and symmetry 0.901 give weighted sums 0.9075 and 0.9079, and both are scored 90.
\<close>

theorem harmony_score_not_strict_counterexample:
  "(0.90::real) < 0.901 \<and>
   \<not> calculate_harmony_score (scenario_A\<lparr>symmetry_score := Some 0.90\<rparr>)
         [nose_operation ''refine_tip'' (1 - 0.15 * 0.7)]
     < calculate_harmony_score (scenario_A\<lparr>symmetry_score := Some 0.901\<rparr>)
         [nose_operation ''refine_tip'' (1 - 0.15 * 0.7)]"
  by (simp add: score_defs scenario_A_def dict_get_def rules_defs py_int_def)

text \<open>
  Claim C5, amended. For every fixed operation list and every pair of measurement records
  identical except in \<open>symmetry_score\<close>, the score of the record with the smaller
  \<open>symmetry_score\<close> is smaller or equal: the score never increases as \<open>symmetry_score\<close>
  decreases.
\<close>

theorem harmony_score_mono_in_symmetry:
  assumes "s1 \<le> s2"
  shows "calculate_harmony_score (m\<lparr>symmetry_score := Some s1\<rparr>) ops
       \<le> calculate_harmony_score (m\<lparr>symmetry_score := Some s2\<rparr>) ops"
proof -
  have "total_score (m\<lparr>symmetry_score := Some s1\<rparr>) ops * 100
      \<le> total_score (m\<lparr>symmetry_score := Some s2\<rparr>) ops * 100"
    using assms
    by (simp add: total_score_symmetry [where s = s1] total_score_symmetry [where s = s2])
  then have "py_int (total_score (m\<lparr>symmetry_score := Some s1\<rparr>) ops * 100)
      \<le> py_int (total_score (m\<lparr>symmetry_score := Some s2\<rparr>) ops * 100)"
    by (rule py_int_mono)
  then show ?thesis by (simp add: calculate_harmony_score_def Let_def)
qed

theorem harmony_score_mono_in_symmetry_witness:
  "(0.5::real) \<le> 0.95 \<and>
   calculate_harmony_score (scenario_A\<lparr>symmetry_score := Some 0.5\<rparr>) []
     \<le> calculate_harmony_score (scenario_A\<lparr>symmetry_score := Some 0.95\<rparr>) []"
proof -
  have h: "(0.5::real) \<le> 0.95" by simp
  show ?thesis using h harmony_score_mono_in_symmetry [OF h, of scenario_A "[]"] by simp
qed

section \<open>Facts about the warp engine\<close>

lemma blend_neq: "blend img c \<noteq> img"
proof
  assume "blend img c = img"
  then have "composites (blend img c) = composites img" by simp
  then show False by (simp add: blend_def)
qed

lemma py_int_nonpos: "x \<le> 0 \<Longrightarrow> py_int x \<le> 0"
  by (simp add: py_int_def ceiling_le_zero)

lemma py_int_nonneg: "0 \<le> x \<Longrightarrow> 0 \<le> py_int x"
  by (simp add: py_int_def)

subsection \<open>The parameter guards of the six renderers\<close>

lemma shrink_outside:
  "factor op = Some f \<Longrightarrow> f < 0.70 \<or> f \<ge> 1.0 \<Longrightarrow> shrink_nose_width img op = img"
  by (auto simp add: shrink_nose_width_def dict_get_def)

lemma tip_outside:
  "factor op = Some f \<Longrightarrow> f < 0.80 \<or> f \<ge> 1.0 \<Longrightarrow> refine_nose_tip img op = img"
  by (auto simp add: refine_nose_tip_def dict_get_def)

lemma bridge_outside:
  "factor op = Some f \<Longrightarrow> f < 0.85 \<or> f \<ge> 1.0 \<Longrightarrow> refine_nose_bridge img op = img"
  by (auto simp add: refine_nose_bridge_def dict_get_def)

lemma jaw_outside:
  "mm op = Some v \<Longrightarrow> v = 0 \<or> v > 2.0 \<Longrightarrow> balance_jaw img op = img"
  by (auto simp add: balance_jaw_def dict_get_def)

lemma symmetry_outside:
  "amount op = Some a \<Longrightarrow> a = 0 \<or> a > 0.15 \<Longrightarrow> improve_symmetry img op = img"
  by (auto simp add: improve_symmetry_def dict_get_def)

text \<open>
  \<^verbatim>\<open>_enhance_chin\<close> tests \<^verbatim>\<open>amount == 0 or amount > 0.2\<close> only; a negative amount is stopped
  by the next guard, since the stretch \<^verbatim>\<open>int(chin_height * amount * 0.5)\<close> is then at most 0.
\<close>

lemma chin_outside:
  assumes "amount op = Some a" "a \<le> 0 \<or> a > 0.2"
  shows "enhance_chin img op = img"
proof (cases "a = 0 \<or> a > 0.2")
  case True
  then show ?thesis using assms(1) by (auto simp add: enhance_chin_def dict_get_def)
next
  case False
  with assms(2) have neg: "a < 0" by auto
  have "0 \<le> py_int (real_of_int (int (height img)) * 0.15)"
    by (rule py_int_nonneg) simp
  then have "real_of_int (py_int (real_of_int (int (height img)) * 0.15)) * a * 0.5 \<le> 0"
    using neg by (simp add: mult_nonneg_nonpos)
  then have "py_int (real_of_int (py_int (real_of_int (int (height img)) * 0.15)) * a * 0.5) \<le> 0"
    by (rule py_int_nonpos)
  then have "py_int (real_of_int (py_int (real_of_int (int (height img)) * 0.15)) * a * 0.5) < 1"
    by simp
  then show ?thesis using assms(1) False
    by (simp add: enhance_chin_def dict_get_def Let_def)
qed

text \<open>A jaw correction of minus one millimetre on a raster of 1000 by 1000 is rendered.\<close>

lemma balance_jaw_negative:
  "balance_jaw (loaded 1000 1000) (jaw_operation (-1)) =
   blend (loaded 1000 1000)
     (WarpPerspective [(300, 700), (500, 700), (500, 900), (300, 900)]
        [(295.8, 700), (504.2, 700), (504.2, 900), (295.8, 900)]
        (FillPoly [(300, 700), (500, 700), (500, 900), (300, 900)]) 21)"
  by (simp add: balance_jaw_def jaw_operation_def loaded_def dict_get_def py_int_def Let_def
      pt_def)

subsection \<open>Upper-third operations\<close>

lemma upper_in: "str_in ''upper'' ''adjust_upper_third''"
  unfolding str_in_def by code_simp

lemma thirds_upper:
  assumes "op \<in> set (thirds_ops m)" "op_type op = ''adjust_upper_third''"
  shows "\<exists>cur. current op = Some cur \<and> target op = Some 0.33 \<and> \<bar>cur - 0.33\<bar> > 0.05"
  using assms
  by (auto simp: thirds_ops_def analyze_facial_thirds_def third_op_def Let_def new_op_def
      rules_defs split: if_splits)

lemma not_upper_type:
  "op \<in> set (symmetry_ops m) \<Longrightarrow> op_type op \<noteq> ''adjust_upper_third''"
  "op \<in> set (nose_ops m) \<Longrightarrow> op_type op \<noteq> ''adjust_upper_third''"
  "op \<in> set (jaw_ops m) \<Longrightarrow> op_type op \<noteq> ''adjust_upper_third''"
  "op \<in> set (chin_ops m) \<Longrightarrow> op_type op \<noteq> ''adjust_upper_third''"
  by (auto dest!: region_symmetry region_nose region_jaw region_chin)

lemma planned_upper:
  assumes "op \<in> set (plan_changes m)" "op_type op = ''adjust_upper_third''"
  shows "region op = ''face'' \<and>
    (\<exists>cur. current op = Some cur \<and> target op = Some 0.33 \<and> \<bar>cur - 0.33\<bar> > 0.05)"
proof -
  from assms have "op \<in> set (thirds_ops m)"
    using not_upper_type [of op m] by (auto simp: plan_changes_emitted emitted_def)
  then show ?thesis using assms(2) thirds_upper region_thirds by blast
qed

lemma upper_beyond:
  assumes "region op = ''face''" "op_type op = ''adjust_upper_third''"
    "current op = Some cur" "target op = Some tgt" "\<bar>tgt - cur\<bar> > 0.02"
  shows "adjust_facial_third img op = img" "apply_single_operation img op = img"
proof -
  show a: "adjust_facial_third img op = img"
    using assms
    by (simp add: adjust_facial_third_def adjust_upper_third_def dict_get_def upper_in Let_def)
  show "apply_single_operation img op = img"
    using assms(1,2) a by (simp add: apply_single_operation_def third_in Let_def)
qed

lemma plan_long_forehead:
  "plan_changes long_forehead =
     [\<lparr>region = ''face'', op_type = ''symmetry'', amount = Some 0.15, factor = None, mm = None,
       current = None, target = None, priority = Some 1\<rparr>,
      nose_operation ''shrink_width'' 0.70, nose_operation ''refine_tip'' 0.85,
      nose_operation ''refine_bridge'' 0.90,
      jaw_operation 2,
      \<lparr>region = ''chin'', op_type = ''enhance'', amount = Some 0.15, factor = None, mm = None,
       current = None, target = None, priority = Some 4\<rparr>,
      upper_third_operation 0.45,
      \<lparr>region = ''face'', op_type = ''adjust_middle_third'', amount = None, factor = None,
       mm = None, current = Some 0.25, target = Some 0.33, priority = Some 5\<rparr>]"
  by (simp add: plan_changes_emitted emitted_def tier_defs long_forehead_def dict_get_def
      rules_defs new_op_def Let_def nose_operation_def jaw_operation_def
      upper_third_operation_def)

section \<open>Properties of the warp engine\<close>

text \<open>
  Claim C6, as stated: a renderer returns its input unchanged whenever its parameter lies
  outside its window, the window of jaw/balance being \<open>0 < mm \<le> 2.0\<close>. It fails for a
  negative \<open>mm\<close>: \<^verbatim>\<open>_balance_jaw\<close> tests \<^verbatim>\<open>mm_correction == 0 or mm_correction > 2.0\<close> only
  and uses the sign of the correction to choose the side of the face. With \<open>mm = -1\<close> on a
  raster of 1000 by 1000 the pixel correction is \<open>-6\<close>, the left half of the jaw is taken as
  the source quadrilateral and warped onto one that is 4.2 pixels wider on each side.
\<close>

theorem balance_jaw_negative_counterexample:
  "mm (jaw_operation (-1)) = Some (-1) \<and>
   \<not> (0 < (-1::real) \<and> (-1::real) \<le> 2.0) \<and>
   balance_jaw (loaded 1000 1000) (jaw_operation (-1)) \<noteq> loaded 1000 1000"
  by (simp add: balance_jaw_negative blend_neq) (simp add: jaw_operation_def)

text \<open>
  Claim C6, amended. For every image buffer each renderer returns its input unchanged when
  its parameter is outside the window its guard tests: shrink_width for a factor outside
  \<open>[0.70, 1.0)\<close>, refine_tip outside \<open>[0.80, 1.0)\<close>, refine_bridge outside \<open>[0.85, 1.0)\<close>,
  jaw/balance for \<open>mm = 0\<close> or \<open>mm > 2.0\<close>, face/symmetry for \<open>amount = 0\<close> or
  \<open>amount > 0.15\<close>, chin/enhance for \<open>amount \<le> 0\<close> or \<open>amount > 0.2\<close>. A negative \<open>mm\<close> is a
  valid jaw correction of the other side of the face.
\<close>

theorem renderers_identity_outside_window:
  "(f1 < 0.70 \<or> 1.0 \<le> f1 \<longrightarrow> shrink_nose_width img (op\<lparr>factor := Some f1\<rparr>) = img) \<and>
   (f2 < 0.80 \<or> 1.0 \<le> f2 \<longrightarrow> refine_nose_tip img (op\<lparr>factor := Some f2\<rparr>) = img) \<and>
   (f3 < 0.85 \<or> 1.0 \<le> f3 \<longrightarrow> refine_nose_bridge img (op\<lparr>factor := Some f3\<rparr>) = img) \<and>
   (v = 0 \<or> 2.0 < v \<longrightarrow> balance_jaw img (op\<lparr>mm := Some v\<rparr>) = img) \<and>
   (a1 = 0 \<or> 0.15 < a1 \<longrightarrow> improve_symmetry img (op\<lparr>amount := Some a1\<rparr>) = img) \<and>
   (a2 \<le> 0 \<or> 0.2 < a2 \<longrightarrow> enhance_chin img (op\<lparr>amount := Some a2\<rparr>) = img)"
proof (intro conjI impI)
  show "shrink_nose_width img (op\<lparr>factor := Some f1\<rparr>) = img" if "f1 < 0.70 \<or> 1.0 \<le> f1"
    using that by (intro shrink_outside [where f = f1]) simp_all
  show "refine_nose_tip img (op\<lparr>factor := Some f2\<rparr>) = img" if "f2 < 0.80 \<or> 1.0 \<le> f2"
    using that by (intro tip_outside [where f = f2]) simp_all
  show "refine_nose_bridge img (op\<lparr>factor := Some f3\<rparr>) = img" if "f3 < 0.85 \<or> 1.0 \<le> f3"
    using that by (intro bridge_outside [where f = f3]) simp_all
  show "balance_jaw img (op\<lparr>mm := Some v\<rparr>) = img" if "v = 0 \<or> 2.0 < v"
    using that by (intro jaw_outside [where v = v]) simp_all
  show "improve_symmetry img (op\<lparr>amount := Some a1\<rparr>) = img" if "a1 = 0 \<or> 0.15 < a1"
    using that by (intro symmetry_outside [where a = a1]) simp_all
  show "enhance_chin img (op\<lparr>amount := Some a2\<rparr>) = img" if "a2 \<le> 0 \<or> 0.2 < a2"
    using that by (intro chin_outside [where a = a2]) simp_all
qed

theorem renderers_identity_outside_window_witness:
  "shrink_nose_width (loaded 1000 1000) ((jaw_operation 0)\<lparr>factor := Some 0.5\<rparr>) = loaded 1000 1000 \<and>
   refine_nose_tip (loaded 1000 1000) ((jaw_operation 0)\<lparr>factor := Some 0.79\<rparr>) = loaded 1000 1000 \<and>
   refine_nose_bridge (loaded 1000 1000) ((jaw_operation 0)\<lparr>factor := Some 1.0\<rparr>) = loaded 1000 1000 \<and>
   balance_jaw (loaded 1000 1000) ((jaw_operation 0)\<lparr>mm := Some 2.5\<rparr>) = loaded 1000 1000 \<and>
   improve_symmetry (loaded 1000 1000) ((jaw_operation 0)\<lparr>amount := Some 0.2\<rparr>) = loaded 1000 1000 \<and>
   enhance_chin (loaded 1000 1000) ((jaw_operation 0)\<lparr>amount := Some (-0.1)\<rparr>) = loaded 1000 1000"
  using renderers_identity_outside_window
    [where ?f1.0 = "0.5" and ?f2.0 = "0.79" and ?f3.0 = "1.0" and v = "2.5" and ?a1.0 = "0.2"
       and ?a2.0 = "-0.1" and img = "loaded 1000 1000" and op = "jaw_operation 0"]
  by simp

text \<open>
  Claim C9. For every measurement record and every image buffer, a face/adjust_upper_third
  operation of the plan leaves the image as it is. The planner writes such an operation only
  with \<open>\<bar>current - 0.33\<bar> > 0.05\<close>, and \<^verbatim>\<open>_adjust_upper_third\<close> returns its input whenever
  \<open>\<bar>target - current\<bar> > 0.02\<close>; so neither \<^verbatim>\<open>_adjust_facial_third\<close> nor the dispatch
  \<^verbatim>\<open>_apply_single_operation\<close> changes the buffer.
\<close>

theorem planned_upper_third_is_identity:
  assumes "op \<in> set (plan_changes m)" "op_type op = ''adjust_upper_third''"
  shows "(\<exists>cur. current op = Some cur \<and> target op = Some 0.33 \<and> \<bar>cur - 0.33\<bar> > 0.05) \<and>
     adjust_facial_third img op = img \<and> apply_single_operation img op = img"
proof -
  from planned_upper [OF assms] obtain cur where r: "region op = ''face''"
    and c: "current op = Some cur" and t: "target op = Some 0.33"
    and d: "\<bar>cur - 0.33\<bar> > 0.05"
    by blast
  from d have "\<bar>0.33 - cur\<bar> > 0.02" by linarith
  from upper_beyond [OF r assms(2) c t this] c t d show ?thesis by blast
qed

text \<open>The record with the long forehead: its plan holds the upper-third operation.\<close>

theorem planned_upper_third_is_identity_witness:
  "upper_third_operation 0.45 \<in> set (plan_changes long_forehead) \<and>
   op_type (upper_third_operation 0.45) = ''adjust_upper_third'' \<and>
   apply_single_operation (loaded 1000 1000) (upper_third_operation 0.45) = loaded 1000 1000"
proof -
  have a: "upper_third_operation 0.45 \<in> set (plan_changes long_forehead)"
    by (simp add: plan_long_forehead)
  have b: "op_type (upper_third_operation 0.45) = ''adjust_upper_third''"
    by (simp add: upper_third_operation_def)
  show ?thesis
    using a b planned_upper_third_is_identity [OF a b, of "loaded 1000 1000"] by blast
qed

text \<open>
  Claim C10. \<open>apply_operations\<close> returns \<^verbatim>\<open>None\<close> exactly when the operation list is empty
  or the image cannot be loaded, and then writes nothing; otherwise it returns the output
  path \<^verbatim>\<open>uploads/after_<stem>.jpg\<close>.
\<close>

theorem apply_operations_none_iff:
  "(fst (apply_operations stem files path ops) = None) = (ops = [] \<or> files path = None) \<and>
   (if ops = [] \<or> files path = None
    then apply_operations stem files path ops = (None, files)
    else fst (apply_operations stem files path ops)
           = Some (''uploads/after_'' @ stem path @ ''.jpg''))"
  by (auto simp: apply_operations_def save_processed_image_def Let_def split: option.splits)

theorem apply_operations_none_iff_witness:
  "fst (apply_operations (\<lambda>p. ''face'') [''face.png'' \<mapsto> loaded 100 100] ''face.png''
          [jaw_operation 2]) = Some ''uploads/after_face.jpg'' \<and>
   fst (apply_operations (\<lambda>p. ''face'') [''face.png'' \<mapsto> loaded 100 100] ''face.png'' [])
     = None \<and>
   fst (apply_operations (\<lambda>p. ''nose'') [''face.png'' \<mapsto> loaded 100 100] ''nose.png''
          [jaw_operation 2]) = None"
  using apply_operations_none_iff
      [of "\<lambda>p. ''face''" "[''face.png'' \<mapsto> loaded 100 100]" "''face.png''" "[jaw_operation 2]"]
    apply_operations_none_iff
      [of "\<lambda>p. ''face''" "[''face.png'' \<mapsto> loaded 100 100]" "''face.png''" "[]"]
    apply_operations_none_iff
      [of "\<lambda>p. ''nose''" "[''face.png'' \<mapsto> loaded 100 100]" "''nose.png''" "[jaw_operation 2]"]
  by simp

section \<open>Facts about the recommendation renderer\<close>

text \<open>The loop is a homomorphism: each operation appends what it appends on its own.\<close>

lemma describe_step_append:
  "describe_step (recs, descs) op =
     (recs @ fst (describe_step ([], []) op), descs @ snd (describe_step ([], []) op))"
  by (simp add: describe_step_def Let_def)

lemma foldl_describe:
  "foldl describe_step (recs, descs) ops =
     (recs @ concat (map own_sentences ops), descs @ concat (map own_nose_parts ops))"
proof (induction ops arbitrary: recs descs)
  case Nil
  then show ?case by simp
next
  case (Cons op ops)
  show ?case
    by (subst foldl_Cons, subst describe_step_append, subst Cons.IH)
       (simp add: own_sentences_def own_nose_parts_def)
qed

lemma describe_loop_concat:
  "describe_loop ops = (concat (map own_sentences ops), concat (map own_nose_parts ops))"
  by (simp add: describe_loop_def foldl_describe)

lemma middle_in_upper_not:
  "\<not> str_in ''upper'' ''adjust_middle_third''" "str_in ''middle'' ''adjust_middle_third''"
  "\<not> str_in ''upper'' ''adjust_lower_third''" "\<not> str_in ''middle'' ''adjust_lower_third''"
  "str_in ''upper'' ''adjust_upper_third''"
  unfolding str_in_def by code_simp+

lemma own_symmetry:
  "op \<in> set (symmetry_ops m) \<Longrightarrow> length (own_sentences op) = 1 \<and> own_nose_parts op = []"
  by (drule region_symmetry) (simp add: own_sentences_def own_nose_parts_def describe_step_def Let_def)

lemma own_nose:
  "op \<in> set (nose_ops m) \<Longrightarrow> own_sentences op = [] \<and> length (own_nose_parts op) = 1"
  by (drule region_nose) (auto simp add: own_sentences_def own_nose_parts_def describe_step_def Let_def)

lemma own_jaw:
  "op \<in> set (jaw_ops m) \<Longrightarrow> length (own_sentences op) = 1 \<and> own_nose_parts op = []"
  by (drule region_jaw) (simp add: own_sentences_def own_nose_parts_def describe_step_def Let_def)

lemma own_chin:
  "op \<in> set (chin_ops m) \<Longrightarrow> length (own_sentences op) = 1 \<and> own_nose_parts op = []"
  by (drule region_chin) (simp add: own_sentences_def own_nose_parts_def describe_step_def Let_def)

lemma own_thirds:
  "op \<in> set (thirds_ops m) \<Longrightarrow> length (own_sentences op) = 1 \<and> own_nose_parts op = []"
  by (drule region_thirds) (auto simp add: own_sentences_def own_nose_parts_def describe_step_def Let_def third_in)

lemma nose_ops_nonempty: "nose_ops m \<noteq> []"
  by (simp add: nose_ops_def Let_def)

lemma planned_cases:
  "op \<in> set (plan_changes m) \<Longrightarrow>
     op \<in> set (symmetry_ops m) \<or> op \<in> set (nose_ops m) \<or> op \<in> set (jaw_ops m)
     \<or> op \<in> set (chin_ops m) \<or> op \<in> set (thirds_ops m)"
  by (auto simp: plan_changes_emitted emitted_def)

lemma planned_own:
  assumes "op \<in> set (plan_changes m)"
  shows "if region op = ''nose'' then own_sentences op = [] \<and> length (own_nose_parts op) = 1
         else length (own_sentences op) = 1 \<and> own_nose_parts op = []"
  using planned_cases [OF assms]
proof (elim disjE)
  assume a: "op \<in> set (symmetry_ops m)"
  from region_symmetry [OF a] own_symmetry [OF a] show ?thesis by simp
next
  assume a: "op \<in> set (nose_ops m)"
  from region_nose [OF a] own_nose [OF a] show ?thesis by simp
next
  assume a: "op \<in> set (jaw_ops m)"
  from region_jaw [OF a] own_jaw [OF a] show ?thesis by simp
next
  assume a: "op \<in> set (chin_ops m)"
  from region_chin [OF a] own_chin [OF a] show ?thesis by simp
next
  assume a: "op \<in> set (thirds_ops m)"
  from region_thirds [OF a] own_thirds [OF a] show ?thesis by simp
qed

lemma planned_nose_parts_nonempty: "concat (map own_nose_parts (plan_changes m)) \<noteq> []"
proof -
  from nose_ops_nonempty [of m] obtain op where a: "op \<in> set (nose_ops m)"
    by (cases "nose_ops m") auto
  then have "op \<in> set (plan_changes m)" by (simp add: plan_changes_emitted emitted_def)
  moreover from own_nose [OF a] have "own_nose_parts op \<noteq> []" by auto
  ultimately show ?thesis by auto
qed

lemma recommendations_long_forehead:
  "get_readable_recommendations (plan_changes long_forehead) = long_forehead_disclosure"
  by (simp add: plan_long_forehead get_readable_recommendations_def describe_loop_def
      describe_step_def describe_third_def rhinoplasty_def nose_operation_def
      jaw_operation_def upper_third_operation_def dict_get_def py_int_def Let_def third_in
      middle_in_upper_not long_forehead_disclosure_def)

section \<open>Properties of the recommendation renderer\<close>

text \<open>
  Claim C8. For every operation list produced by \<open>plan_changes\<close>, every operation produces
  or contributes to exactly one recommendation: a nose operation adds no sentence of its own
  and exactly one part to the merged rhinoplasty sentence, every other operation adds
  exactly one sentence and nothing to the nose sentence. The result is the single
  rhinoplasty sentence, built from the nose parts in order and placed at the front, followed
  by the sentences of the other operations in order. The empty operation list yields exactly
  the fixed two lines.
\<close>

theorem planned_operations_disclosed:
  "(\<forall>op \<in> set (plan_changes m).
      if region op = ''nose'' then own_sentences op = [] \<and> length (own_nose_parts op) = 1
      else length (own_sentences op) = 1 \<and> own_nose_parts op = []) \<and>
   get_readable_recommendations (plan_changes m) =
     rhinoplasty (concat (map own_nose_parts (plan_changes m)))
       # concat (map own_sentences (plan_changes m)) \<and>
   get_readable_recommendations [] =
     [[Lit ''Your facial features are already well-balanced!''],
      [Lit ''No enhancements recommended - your facial harmony is optimal'']]"
proof (intro conjI ballI)
  show "if region op = ''nose'' then own_sentences op = [] \<and> length (own_nose_parts op) = 1
        else length (own_sentences op) = 1 \<and> own_nose_parts op = []"
    if "op \<in> set (plan_changes m)" for op
    using that by (rule planned_own)
  show "get_readable_recommendations (plan_changes m) =
     rhinoplasty (concat (map own_nose_parts (plan_changes m)))
       # concat (map own_sentences (plan_changes m))"
    using planned_nose_parts_nonempty [of m]
    by (simp add: get_readable_recommendations_def describe_loop_concat Let_def)
  show "get_readable_recommendations [] =
     [[Lit ''Your facial features are already well-balanced!''],
      [Lit ''No enhancements recommended - your facial harmony is optimal'']]"
    by (simp add: get_readable_recommendations_def describe_loop_def already_balanced_def)
qed

text \<open>
  The plan for the long forehead has eight operations, three of them on the nose; they are
  disclosed in six recommendations, the merged nose sentence first.
\<close>

theorem planned_operations_disclosed_witness:
  "length (plan_changes long_forehead) = 8 \<and>
   length (filter (\<lambda>op. region op = ''nose'') (plan_changes long_forehead)) = 3 \<and>
   rhinoplasty (concat (map own_nose_parts (plan_changes long_forehead)))
     # concat (map own_sentences (plan_changes long_forehead)) = long_forehead_disclosure \<and>
   length long_forehead_disclosure = 6"
proof -
  have a: "length (plan_changes long_forehead) = 8"
    by (simp add: plan_long_forehead)
  have b: "length (filter (\<lambda>op. region op = ''nose'') (plan_changes long_forehead)) = 3"
    by (simp add: plan_long_forehead nose_operation_def jaw_operation_def
        upper_third_operation_def)
  have c: "length long_forehead_disclosure = 6"
    by (simp add: long_forehead_disclosure_def)
  from planned_operations_disclosed [of long_forehead] recommendations_long_forehead
  have "rhinoplasty (concat (map own_nose_parts (plan_changes long_forehead)))
     # concat (map own_sentences (plan_changes long_forehead)) = long_forehead_disclosure"
    by simp
  with a b c show ?thesis by blast
qed

end
